theory Spec2Isabelle
  imports Complex_Main
begin

section \<open>Configuration tables of \<^verbatim>\<open>main.py\<close>\<close>

text \<open>
  The program is a Python script that encodes an H.264 and an AV1 ladder with ffmpeg and
  packages them as MPEG-DASH. Python's unbounded integers are \<^typ>\<open>int\<close>, its strings are
  \<^typ>\<open>string\<close>, and the dictionaries are maps.
\<close>

definition DEFAULT_LADDER :: "int list" where
  "DEFAULT_LADDER = [2160, 1440, 1080, 720, 480]"

section \<open>Ladder selection (the list comprehension of \<^verbatim>\<open>main\<close>, lines 242 to 244)\<close>

text \<open>
  \<^verbatim>\<open>ladder = [h for h in DEFAULT_LADDER
            if h <= h_src and (args.max_height == 0 or h <= args.max_height)]
  if not ladder: ladder = [h_src]\<close>
\<close>

definition rung_ok :: "int \<Rightarrow> int \<Rightarrow> int \<Rightarrow> bool" where
  "rung_ok h_src max_height h = (h \<le> h_src \<and> (max_height = 0 \<or> h \<le> max_height))"

definition select_ladder :: "int \<Rightarrow> int \<Rightarrow> int list" where
  "select_ladder h_src max_height =
     (let ladder = filter (rung_ok h_src max_height) DEFAULT_LADDER
      in if ladder = [] then [h_src] else ladder)"

text \<open>
  The selection as the specification words it: the cap applies only when it is positive.
  This definition follows the specification, not the source; it is compared with
  \<^const>\<open>select_ladder\<close> below.
\<close>

definition spec_rung_ok :: "int \<Rightarrow> int \<Rightarrow> int \<Rightarrow> bool" where
  "spec_rung_ok H C h = (h \<le> H \<and> (if C > 0 then h \<le> C else True))"

definition spec_select_ladder :: "int \<Rightarrow> int \<Rightarrow> int list" where
  "spec_select_ladder H C =
     (let ladder = filter (spec_rung_ok H C) DEFAULT_LADDER
      in if ladder = [] then [H] else ladder)"

section \<open>Keyframe interval (line 238 of \<^verbatim>\<open>main\<close>)\<close>

text \<open>
  \<^verbatim>\<open>gop = max(1, round(get_avg_fps(src)*2))\<close>

  A finite Python float is a rational number, doubling it is exact (short of overflow), and
  \<^verbatim>\<open>round\<close> with one argument returns the nearest integer, a tie going to the even
  neighbour. Frame rates are therefore rationals here; the values nan and inf, which no
  fraction of two integers printed by ffprobe parses to, are outside the model.
\<close>

definition py_round :: "rat \<Rightarrow> int" where
  "py_round x =
     (let f = \<lfloor>x\<rfloor>; d = x - of_int f
      in if d < 1 / 2 then f
         else if 1 / 2 < d then f + 1
         else if even f then f else f + 1)"

definition gop_of :: "rat \<Rightarrow> int" where
  "gop_of fps = max 1 (py_round (fps * 2))"

section \<open>Python built-ins used by the prober\<close>

text \<open>
  The exceptions of the program. Those of the first type are subclasses of
  \<^verbatim>\<open>Exception\<close>, which a handler \<^verbatim>\<open>except Exception\<close> catches; \<^verbatim>\<open>SystemExit\<close>, raised
  by \<^verbatim>\<open>sys.exit\<close>, is not one of them. A keyboard interrupt is not modelled.
\<close>

datatype py_exception =
    CalledProcessError
  | OSError
  | IndexError
  | ValueError
  | ZeroDivisionError

datatype py_error =
    Exception py_exception
  | SystemExit string

definition is_digit :: "char \<Rightarrow> bool" where
  "is_digit c = (c \<in> set ''0123456789'')"

definition digit_val :: "char \<Rightarrow> nat" where
  "digit_val c = of_char c - 48"

definition digits_val :: "string \<Rightarrow> nat" where
  "digits_val s = foldl (\<lambda>a c. 10 * a + digit_val c) 0 s"

text \<open>An optional sign in front of a numeric literal: the flag says whether it was a minus.\<close>

fun strip_sign :: "string \<Rightarrow> bool \<times> string" where
  "strip_sign [] = (False, [])"
| "strip_sign (c # cs) =
     (if c = CHR ''-'' then (True, cs)
      else if c = CHR ''+'' then (False, cs)
      else (False, c # cs))"

text \<open>
  \<^verbatim>\<open>int(s)\<close> on a string: an optional sign and a non-empty run of decimal digits;
  anything else raises ValueError. Python also accepts surrounding blanks and single
  underscores between digits; the prober strips its lines, ffprobe prints neither, and the
  model rejects them.
\<close>

definition py_int :: "string \<Rightarrow> py_exception + int" where
  "py_int s =
     (case strip_sign s of (neg, body) \<Rightarrow>
        if body \<noteq> [] \<and> list_all is_digit body
        then Inr (if neg then - int (digits_val body) else int (digits_val body))
        else Inl ValueError)"

text \<open>
  \<^verbatim>\<open>float(s)\<close> on a string, for plain decimal literals: an optional sign, digits, an
  optional point and more digits, with at least one digit overall. The value is the exact
  decimal (Python rounds it to the nearest double). Exponents, underscores, blanks, inf and
  nan, which Python also accepts, are rejected by the model; no theorem below rests on a
  rejection.
\<close>

definition py_float :: "string \<Rightarrow> py_exception + rat" where
  "py_float s =
     (case strip_sign s of (neg, body) \<Rightarrow>
        let ip = takeWhile (\<lambda>c. c \<noteq> CHR ''.'') body;
            fp = drop 1 (dropWhile (\<lambda>c. c \<noteq> CHR ''.'') body);
            v = of_nat (digits_val ip) + of_nat (digits_val fp) / 10 ^ length fp
        in if list_all is_digit ip \<and> list_all is_digit fp \<and> ip @ fp \<noteq> []
           then Inr (if neg then - v else v)
           else Inl ValueError)"

text \<open>
  \<^verbatim>\<open>a / b\<close> on floats raises ZeroDivisionError when \<open>b\<close> is zero. The quotient is exact
  here, where Python rounds it to the nearest double.
\<close>

definition py_truediv :: "rat \<Rightarrow> rat \<Rightarrow> py_exception + rat" where
  "py_truediv a b = (if b = 0 then Inl ZeroDivisionError else Inr (a / b))"

text \<open>\<^verbatim>\<open>s.split(sep)\<close> for a one-character separator: never empty, one more part than separators.\<close>

fun split_on :: "char \<Rightarrow> string \<Rightarrow> string list" where
  "split_on sep [] = [[]]"
| "split_on sep (c # cs) =
     (if c = sep then [] # split_on sep cs
      else (case split_on sep cs of
              [] \<Rightarrow> [[c]]
            | p # ps \<Rightarrow> (c # p) # ps))"

section \<open>The media prober\<close>

text \<open>
  \<^verbatim>\<open>ffprobe_value\<close> runs ffprobe and returns the non-blank lines of its output, stripped,
  or raises (the process cannot be started, exits non-zero, or its output cannot be
  decoded). Its outcome is the input of the three probing functions: \<open>Inl e\<close> when it
  raised, \<open>Inr vals\<close> when it returned the list \<open>vals\<close>.

  Each probing function is a \<^verbatim>\<open>try\<close> block with a handler \<^verbatim>\<open>except Exception\<close> that
  returns a default. The function with suffix \<open>_try\<close> is the body of the block, with its
  exceptions as \<open>Inl\<close>; the function without the suffix adds the handler.
\<close>

type_synonym probe_result = "py_exception + string list"

definition get_src_height_try :: "probe_result \<Rightarrow> py_exception + int" where
  "get_src_height_try probe =
     (case probe of
        Inl e \<Rightarrow> Inl e
      | Inr vals \<Rightarrow>
          (case vals of
             [] \<Rightarrow> Inl IndexError
           | v # _ \<Rightarrow> py_int v))"

definition get_src_height :: "probe_result \<Rightarrow> int" where
  "get_src_height probe =
     (case get_src_height_try probe of Inl e \<Rightarrow> 1080 | Inr h \<Rightarrow> h)"

definition get_avg_fps_try :: "probe_result \<Rightarrow> py_exception + rat" where
  "get_avg_fps_try probe =
     (case probe of
        Inl e \<Rightarrow> Inl e
      | Inr vals \<Rightarrow>
          (case vals of
             [] \<Rightarrow> Inl IndexError
           | fraction # _ \<Rightarrow>
               if CHR ''/'' \<in> set fraction then
                 (case split_on (CHR ''/'') fraction of
                    [num, den] \<Rightarrow>
                      (case py_float den of
                         Inl e \<Rightarrow> Inl e
                       | Inr d \<Rightarrow>
                           let den' = (if d \<noteq> 0 then d else 1)
                           in (case py_float num of
                                 Inl e \<Rightarrow> Inl e
                               | Inr n \<Rightarrow> py_truediv n den'))
                  | _ \<Rightarrow> Inl ValueError)
               else py_float fraction))"

definition get_avg_fps :: "probe_result \<Rightarrow> rat" where
  "get_avg_fps probe =
     (case get_avg_fps_try probe of Inl e \<Rightarrow> 25 | Inr fps \<Rightarrow> fps)"

definition has_audio_try :: "probe_result \<Rightarrow> py_exception + bool" where
  "has_audio_try probe =
     (case probe of
        Inl e \<Rightarrow> Inl e
      | Inr vals \<Rightarrow> Inr (length vals > 0))"

definition has_audio :: "probe_result \<Rightarrow> bool" where
  "has_audio probe =
     (case has_audio_try probe of Inl e \<Rightarrow> False | Inr b \<Rightarrow> b)"

section \<open>Strings and paths\<close>





text \<open>
  Paths are strings. \<^verbatim>\<open>p / name\<close> joins with a slash; the names joined in this program
  are relative, non-empty and hold no slash, for which \<^verbatim>\<open>pathlib\<close> does the same.
\<close>

definition joinpath :: "string \<Rightarrow> string \<Rightarrow> string" where
  "joinpath p name = p @ ''/'' @ name"



section \<open>The filter-graph builder\<close>





section \<open>Codec parameter tables and the arguments of one rung\<close>











section \<open>External processes and the file system\<close>

text \<open>
  What the program does to the outside is kept as a log of events, and what the outside
  answers is read from an environment: whether a tool is on the path, what a process
  returns (an exception, or its exit code and standard output), whether a directory can
  be made, whether a file exists, and the sorted list of the \<^verbatim>\<open>.mp4\<close> files of a folder
  (file discovery is not part of the core). Calls to \<^verbatim>\<open>print\<close> are left out.
\<close>

datatype event =
    Which string
  | Exec "string list"
  | EnsureDir string

record env =
  which :: "string \<Rightarrow> bool"
  proc :: "string list \<Rightarrow> py_exception + int \<times> string"
  mkdir :: "string \<Rightarrow> py_exception option"
  path_exists :: "string \<Rightarrow> bool"
  list_mp4 :: "string \<Rightarrow> string list"

text \<open>
  A computation takes the log so far and returns a value or an exception, with the log
  extended by what it did. An exception ends the computation it is raised in.
\<close>

type_synonym 'a io = "event list \<Rightarrow> (py_error + 'a) \<times> event list"

definition ret :: "'a \<Rightarrow> 'a io" where
  "ret x = (\<lambda>log. (Inr x, log))"

definition raise :: "py_error \<Rightarrow> 'a io" where
  "raise e = (\<lambda>log. (Inl e, log))"

definition bind :: "'a io \<Rightarrow> ('a \<Rightarrow> 'b io) \<Rightarrow> 'b io" where
  "bind m f = (\<lambda>log. case m log of
                        (Inl e, log') \<Rightarrow> (Inl e, log')
                      | (Inr x, log') \<Rightarrow> f x log')"

definition emit :: "event \<Rightarrow> unit io" where
  "emit ev = (\<lambda>log. (Inr (), log @ [ev]))"


text \<open>\<^verbatim>\<open>run(cmd)\<close>: \<^verbatim>\<open>subprocess.run(cmd, check=True)\<close> raises on a non-zero exit code.\<close>

definition run :: "env \<Rightarrow> string list \<Rightarrow> unit io" where
  "run \<E> cmd =
     bind (emit (Exec cmd)) (\<lambda>_.
       case proc \<E> cmd of
         Inl e \<Rightarrow> raise (Exception e)
       | Inr (rc, out) \<Rightarrow>
           if rc \<noteq> 0 then raise (Exception CalledProcessError) else ret ())"

text \<open>\<^verbatim>\<open>ensure_dir(p)\<close>: \<^verbatim>\<open>p.mkdir(parents=True, exist_ok=True)\<close>.\<close>

definition ensure_dir :: "env \<Rightarrow> string \<Rightarrow> unit io" where
  "ensure_dir \<E> p =
     bind (emit (EnsureDir p)) (\<lambda>_.
       case mkdir \<E> p of
         Some e \<Rightarrow> raise (Exception e)
       | None \<Rightarrow> ret ())"

text \<open>
  \<^verbatim>\<open>ffprobe_value\<close>: the command, and the lines of the output. \<^verbatim>\<open>strip\<close> removes the
  white space of ASCII at both ends and \<^verbatim>\<open>splitlines\<close> breaks at the line boundaries of
  ASCII; blank lines are dropped, so the empty pieces between the two characters of a
  \<^verbatim>\<open>\r\n\<close> do not show.
\<close>

definition is_space :: "char \<Rightarrow> bool" where
  "is_space c = (of_char c \<in> {9, 10, 11, 12, 13, 28, 29, 30, 31, 32 :: nat})"

definition is_linebreak :: "char \<Rightarrow> bool" where
  "is_linebreak c = (of_char c \<in> {10, 11, 12, 13, 28, 29, 30 :: nat})"

definition strip :: "string \<Rightarrow> string" where
  "strip s = rev (dropWhile is_space (rev (dropWhile is_space s)))"

fun splitlines :: "string \<Rightarrow> string list" where
  "splitlines [] = [[]]"
| "splitlines (c # cs) =
     (if is_linebreak c then [] # splitlines cs
      else (case splitlines cs of
              [] \<Rightarrow> [[c]]
            | l # ls \<Rightarrow> (c # l) # ls))"

text \<open>\<^verbatim>\<open>sep.join(parts)\<close>.\<close>

fun join :: "string \<Rightarrow> string list \<Rightarrow> string" where
  "join sep [] = []"
| "join sep [x] = x"
| "join sep (x # y # ys) = x @ sep @ join sep (y # ys)"

definition ffprobe_cmd :: "string \<Rightarrow> string list \<Rightarrow> string \<Rightarrow> string list" where
  "ffprobe_cmd src entries stream_sel =
     [''ffprobe'', ''-v'', ''error'',
      ''-select_streams'', stream_sel,
      ''-show_entries'', join '','' entries,
      ''-of'', ''default=nw=1:nk=1'',
      src]"

definition ffprobe_value :: "env \<Rightarrow> string \<Rightarrow> string list \<Rightarrow> string \<Rightarrow> probe_result" where
  "ffprobe_value \<E> src entries stream_sel =
     (case proc \<E> (ffprobe_cmd src entries stream_sel) of
        Inl e \<Rightarrow> Inl e
      | Inr (rc, out) \<Rightarrow>
          if rc \<noteq> 0 then Inl CalledProcessError
          else Inr (filter (\<lambda>x. x \<noteq> []) (map strip (splitlines (strip out)))))"

text \<open>
  The three probing functions as the program calls them: the query is logged, and its
  outcome, raised or returned, goes through the \<^verbatim>\<open>try\<close> block modelled above.
\<close>

definition get_src_height_io :: "env \<Rightarrow> string \<Rightarrow> int io" where
  "get_src_height_io \<E> src =
     bind (emit (Exec (ffprobe_cmd src [''stream=height''] ''v:0''))) (\<lambda>_.
       ret (get_src_height (ffprobe_value \<E> src [''stream=height''] ''v:0'')))"

definition get_avg_fps_io :: "env \<Rightarrow> string \<Rightarrow> rat io" where
  "get_avg_fps_io \<E> src =
     bind (emit (Exec (ffprobe_cmd src [''stream=avg_frame_rate''] ''v:0''))) (\<lambda>_.
       ret (get_avg_fps (ffprobe_value \<E> src [''stream=avg_frame_rate''] ''v:0'')))"

definition has_audio_io :: "env \<Rightarrow> string \<Rightarrow> bool io" where
  "has_audio_io \<E> src =
     bind (emit (Exec (ffprobe_cmd src [''stream=index''] ''a''))) (\<lambda>_.
       ret (has_audio (ffprobe_value \<E> src [''stream=index''] ''a'')))"

section \<open>The encoders\<close>




section \<open>The audio extractor\<close>

text \<open>\<^verbatim>\<open>p.parent\<close>: the path up to its last slash, or \<^verbatim>\<open>.\<close> when it has none.\<close>

definition parent :: "string \<Rightarrow> string" where
  "parent p =
     (if CHR ''/'' \<in> set p
      then rev (drop 1 (dropWhile (\<lambda>c. c \<noteq> CHR ''/'') (rev p)))
      else ''.'')"

definition audio_cmd :: "string \<Rightarrow> string \<Rightarrow> string \<Rightarrow> string list" where
  "audio_cmd src out_m4a aac_bitrate =
     [''ffmpeg'', ''-y'', ''-i'', src, ''-vn'', ''-c:a'', ''aac'',
      ''-b:a'', aac_bitrate, ''-ac'', ''2'', out_m4a]"

definition extract_audio :: "env \<Rightarrow> string \<Rightarrow> string \<Rightarrow> string \<Rightarrow> string option io" where
  "extract_audio \<E> src out_m4a aac_bitrate =
     bind (has_audio_io \<E> src) (\<lambda>audio.
       if \<not> audio then ret None
       else
         bind (ensure_dir \<E> (parent out_m4a)) (\<lambda>_.
         bind (run \<E> (audio_cmd src out_m4a aac_bitrate)) (\<lambda>_.
           ret (Some out_m4a))))"

section \<open>The two packaging back-ends\<close>






section \<open>The main program\<close>





definition encoders_cmd :: "string list" where
  "encoders_cmd = [''ffmpeg'', ''-hide_banner'', ''-encoders'']"





section \<open>Reading the log\<close>






section \<open>An example run\<close>

text \<open>
  A machine with ffmpeg, ffprobe and MP4Box but no Shaka packager, where every process
  exits with code 0. ffprobe reports a height of 720, a frame rate of 24000/1001 and one
  audio stream, except for \<^verbatim>\<open>videos/mute.mp4\<close>, which has no audio stream; ffmpeg lists the
  libaom encoder.
\<close>

definition example_proc :: "string list \<Rightarrow> py_exception + int \<times> string" where
  "example_proc cmd =
     (if take 1 cmd = [''ffprobe''] then
        (if ''stream=height'' \<in> set cmd then Inr (0, ''720'' @ [CHR 0x0A])
         else if ''stream=avg_frame_rate'' \<in> set cmd then Inr (0, ''24000/1001'' @ [CHR 0x0A])
         else if ''videos/mute.mp4'' \<in> set cmd then Inr (0, [])
         else Inr (0, ''1'' @ [CHR 0x0A]))
      else if cmd = encoders_cmd then Inr (0, '' V....D libaom-av1   libaom AV1 (codec av1)'')
      else Inr (0, []))"

definition example_env :: env where
  "example_env =
     \<lparr>which = (\<lambda>tool. tool \<in> set [''ffmpeg'', ''ffprobe'', ''MP4Box'']),
      proc = example_proc,
      mkdir = (\<lambda>p. None),
      path_exists = (\<lambda>p. True),
      list_mp4 = (\<lambda>d. [joinpath d ''a.mp4'', joinpath d ''mute.mp4''])\<rparr>"


section \<open>Properties of the ladder selection\<close>

lemma DEFAULT_LADDER_descending: "sorted_wrt (>) DEFAULT_LADDER"
  by (simp add: DEFAULT_LADDER_def)

lemma select_ladder_descending: "sorted_wrt (>) (select_ladder H C)"
  unfolding select_ladder_def Let_def
  by (simp add: sorted_wrt_filter DEFAULT_LADDER_descending)

lemma select_ladder_nonempty: "select_ladder H C \<noteq> []"
  unfolding select_ladder_def Let_def by simp

lemma select_ladder_le_source: "h \<in> set (select_ladder H C) \<Longrightarrow> h \<le> H"
  unfolding select_ladder_def Let_def rung_ok_def
  by (auto split: if_splits)

lemma canonical_exceeds_negative_cap: "C < 0 \<Longrightarrow> filter (rung_ok H C) DEFAULT_LADDER = []"
  by (simp add: rung_ok_def DEFAULT_LADDER_def)

text \<open>
  Claim C1, as amended. For every source height \<open>H\<close> and cap \<open>C\<close> the ladder is the
  fixed list 2160, 1440, 1080, 720, 480 filtered to the entries that are at most \<open>H\<close> and,
  whenever \<open>C\<close> is not zero, at most \<open>C\<close>; the order of the list is kept, so the result is
  strictly descending; and when no entry qualifies the result is exactly \<open>[H]\<close>.
  The cap is tested against zero (\<^verbatim>\<open>args.max_height == 0\<close>), not for being positive.
\<close>

theorem select_ladder_filters:
  "DEFAULT_LADDER = [2160, 1440, 1080, 720, 480]
   \<and> sorted_wrt (>) (select_ladder H C)
   \<and> ((\<exists>h \<in> set DEFAULT_LADDER. h \<le> H \<and> (C \<noteq> 0 \<longrightarrow> h \<le> C))
        \<longrightarrow> select_ladder H C = filter (\<lambda>h. h \<le> H \<and> (C \<noteq> 0 \<longrightarrow> h \<le> C)) DEFAULT_LADDER)
   \<and> (\<not> (\<exists>h \<in> set DEFAULT_LADDER. h \<le> H \<and> (C \<noteq> 0 \<longrightarrow> h \<le> C))
        \<longrightarrow> select_ladder H C = [H])"
proof -
  let ?keep = "\<lambda>h. h \<le> H \<and> (C \<noteq> 0 \<longrightarrow> h \<le> C)"
  have same: "rung_ok H C = ?keep"
    by (auto simp: rung_ok_def fun_eq_iff)
  have empty_iff: "filter ?keep DEFAULT_LADDER = [] \<longleftrightarrow> \<not> (\<exists>h \<in> set DEFAULT_LADDER. ?keep h)"
    by (simp only: filter_empty_conv bex_simps)
  have sel: "select_ladder H C =
      (if filter ?keep DEFAULT_LADDER = [] then [H] else filter ?keep DEFAULT_LADDER)"
    by (simp only: select_ladder_def Let_def same)
  have some: "(\<exists>h \<in> set DEFAULT_LADDER. ?keep h) \<longrightarrow> select_ladder H C = filter ?keep DEFAULT_LADDER"
    by (simp only: sel empty_iff) simp
  have none: "\<not> (\<exists>h \<in> set DEFAULT_LADDER. ?keep h) \<longrightarrow> select_ladder H C = [H]"
    by (simp only: sel empty_iff) simp
  from DEFAULT_LADDER_def select_ladder_descending [of H C] some none
  show ?thesis by blast
qed

theorem select_ladder_filters_witness:
  "select_ladder 1080 720 = [720, 480] \<and> select_ladder 360 0 = [360]
   \<and> select_ladder 1080 0 = [1080, 720, 480]"
proof -
  have a: "\<exists>h \<in> set DEFAULT_LADDER. h \<le> 1080 \<and> ((720::int) \<noteq> 0 \<longrightarrow> h \<le> 720)"
    by (simp add: DEFAULT_LADDER_def)
  have b: "\<not> (\<exists>h \<in> set DEFAULT_LADDER. h \<le> 360 \<and> ((0::int) \<noteq> 0 \<longrightarrow> h \<le> 0))"
    by (simp add: DEFAULT_LADDER_def)
  have c: "\<exists>h \<in> set DEFAULT_LADDER. h \<le> 1080 \<and> ((0::int) \<noteq> 0 \<longrightarrow> h \<le> 0)"
    by (simp add: DEFAULT_LADDER_def)
  from a select_ladder_filters [of 1080 720]
  have "select_ladder 1080 720
      = filter (\<lambda>h. h \<le> 1080 \<and> ((720::int) \<noteq> 0 \<longrightarrow> h \<le> 720)) DEFAULT_LADDER"
    by blast
  then have a': "select_ladder 1080 720 = [720, 480]"
    by (simp add: DEFAULT_LADDER_def)
  from b select_ladder_filters [of 360 0]
  have b': "select_ladder 360 0 = [360]"
    by blast
  from c select_ladder_filters [of 1080 0]
  have "select_ladder 1080 0
      = filter (\<lambda>h. h \<le> 1080 \<and> ((0::int) \<noteq> 0 \<longrightarrow> h \<le> 0)) DEFAULT_LADDER"
    by blast
  then have c': "select_ladder 1080 0 = [1080, 720, 480]"
    by (simp add: DEFAULT_LADDER_def)
  from a' b' c' show ?thesis by simp
qed

text \<open>
  Claim C1 as the specification states it (the cap applies only if \<open>C > 0\<close>) fails for a
  negative cap: with source height 1080 and cap \<open>-1\<close> the code returns the single rung
  1080, where the specification's filter keeps 1080, 720 and 480.
\<close>

theorem spec_ladder_differs_counterexample:
  "select_ladder 1080 (- 1) = [1080] \<and> spec_select_ladder 1080 (- 1) = [1080, 720, 480]"
  by (simp add: select_ladder_def spec_select_ladder_def rung_ok_def spec_rung_ok_def
      DEFAULT_LADDER_def)

text \<open>
  Claim C9. For every source height \<open>H\<close> and every strictly negative cap \<open>C\<close> the ladder
  is exactly \<open>[H]\<close>: the negative cap is compared with every canonical height, excludes
  them all, and the single-rung fallback is taken.
\<close>

theorem select_ladder_negative_cap:
  "C < 0 \<Longrightarrow> filter (rung_ok H C) DEFAULT_LADDER = [] \<and> select_ladder H C = [H]"
  using canonical_exceeds_negative_cap [of C H]
  by (simp add: select_ladder_def)

theorem select_ladder_negative_cap_witness:
  "(- 5 :: int) < 0 \<and> filter (rung_ok 2160 (- 5)) DEFAULT_LADDER = []
   \<and> select_ladder 2160 (- 5) = [2160]"
  using select_ladder_negative_cap [of "- 5" 2160] by simp

section \<open>Properties of the keyframe interval\<close>

lemma py_round_nearest: "\<bar>of_int (py_round x) - x\<bar> \<le> 1 / 2"
  unfolding py_round_def Let_def by (auto simp: abs_if) linarith+

lemma py_round_of_int: "py_round (of_int k) = k"
  by (simp add: py_round_def)

text \<open>
  Claim C2. For every frame rate the keyframe interval is \<open>max 1 (round (fps * 2))\<close>, where
  the rounding is to the nearest integer; it is 48 at 23.976 (both at the decimal and at
  the double nearest to it, \<open>210895126300459 / 2 ^ 43\<close>) and 1 at 0, and it is never below 1.
\<close>

theorem gop_of_formula:
  "gop_of fps = max 1 (py_round (fps * 2))
   \<and> \<bar>of_int (py_round (fps * 2)) - fps * 2\<bar> \<le> 1 / 2
   \<and> 1 \<le> gop_of fps
   \<and> gop_of (23976 / 1000) = 48
   \<and> gop_of (210895126300459 / 2 ^ 43) = 48
   \<and> gop_of 0 = 1"
proof -
  have a: "gop_of (23976 / 1000) = 48" by code_simp
  have b: "gop_of (210895126300459 / 2 ^ 43) = 48" by code_simp
  have c: "gop_of 0 = 1" by code_simp
  have d: "1 \<le> gop_of fps" by (simp add: gop_of_def)
  from a b c d py_round_nearest [of "fps * 2"] show ?thesis
    by (simp only: gop_of_def simp_thms)
qed

section \<open>Properties of the prober\<close>

lemma strip_sign_chars:
  "strip_sign s = (neg, body) \<Longrightarrow> set s \<subseteq> {CHR ''-'', CHR ''+''} \<union> set body"
  by (cases s) (auto split: if_splits)

lemma takeWhile_drop_chars:
  "set body \<subseteq> set (takeWhile (\<lambda>c. c \<noteq> d) body) \<union> {d}
      \<union> set (drop 1 (dropWhile (\<lambda>c. c \<noteq> d) body))"
  by (induction body) auto

lemma slash_not_digit: "\<not> is_digit (CHR ''/'')"
  by (simp add: is_digit_def)

lemma py_float_no_slash:
  assumes "py_float s = Inr n"
  shows "CHR ''/'' \<notin> set s"
proof -
  obtain neg body where sb: "strip_sign s = (neg, body)"
    by (cases "strip_sign s")
  let ?ip = "takeWhile (\<lambda>c. c \<noteq> CHR ''.'') body"
  let ?fp = "drop 1 (dropWhile (\<lambda>c. c \<noteq> CHR ''.'') body)"
  from assms sb have dig: "list_all is_digit ?ip" "list_all is_digit ?fp"
    by (auto simp: py_float_def Let_def split: if_splits)
  have "CHR ''/'' \<notin> set ?ip" "CHR ''/'' \<notin> set ?fp"
    using dig slash_not_digit by (auto simp: list_all_iff)
  then have "CHR ''/'' \<notin> set body"
    using takeWhile_drop_chars [of body "CHR ''.''"] by auto
  then show ?thesis
    using strip_sign_chars [OF sb] by auto
qed

lemma split_on_single: "sep \<notin> set s \<Longrightarrow> split_on sep s = [s]"
  by (induction s) (auto split: list.splits)

lemma split_on_append:
  "sep \<notin> set s \<Longrightarrow> split_on sep (s @ sep # t) = s # split_on sep t"
  by (induction s) (auto split: list.splits)

lemma get_avg_fps_try_no_zero_division: "get_avg_fps_try (Inr vals) \<noteq> Inl ZeroDivisionError"
  by (auto simp: get_avg_fps_try_def py_truediv_def py_float_def Let_def
      split: sum.splits list.splits if_splits prod.splits)

lemma probing_never_raises:
  "fst (get_src_height_io \<E> src evs)
     = Inr (get_src_height (ffprobe_value \<E> src [''stream=height''] ''v:0''))"
  "fst (get_avg_fps_io \<E> src evs)
     = Inr (get_avg_fps (ffprobe_value \<E> src [''stream=avg_frame_rate''] ''v:0''))"
  "fst (has_audio_io \<E> src evs)
     = Inr (has_audio (ffprobe_value \<E> src [''stream=index''] ''a''))"
  by (simp_all add: get_src_height_io_def get_avg_fps_io_def has_audio_io_def
      bind_def emit_def ret_def)

lemma ffprobe_value_failure:
  "proc \<E> (ffprobe_cmd src entries sel) = Inl e \<Longrightarrow> ffprobe_value \<E> src entries sel = Inl e"
  "proc \<E> (ffprobe_cmd src entries sel) = Inr (rc, txt) \<Longrightarrow> rc \<noteq> 0 \<Longrightarrow>
     ffprobe_value \<E> src entries sel = Inl CalledProcessError"
  by (simp_all add: ffprobe_value_def)

text \<open>
  Claim C5. Whenever a probe query raises (the process cannot be run, or exits with a
  non-zero code), the prober returns the defaults: height 1080, frame rate 25.0, no audio.
  The same defaults answer every exception of the parsing that follows a successful query
  (an empty output, an unparseable number). The three probing functions never raise: they
  return the value that the handler or the body of the \<^verbatim>\<open>try\<close> block gives.
\<close>

theorem probe_failure_defaults:
  "get_src_height (Inl e) = 1080 \<and> get_avg_fps (Inl e) = 25 \<and> \<not> has_audio (Inl e)
   \<and> (get_src_height_try p1 = Inl e1 \<longrightarrow> get_src_height p1 = 1080)
   \<and> (get_avg_fps_try p2 = Inl e2 \<longrightarrow> get_avg_fps p2 = 25)
   \<and> (has_audio_try p3 = Inl e3 \<longrightarrow> \<not> has_audio p3)
   \<and> fst (get_src_height_io \<E> src evs)
       = Inr (get_src_height (ffprobe_value \<E> src [''stream=height''] ''v:0''))
   \<and> fst (get_avg_fps_io \<E> src evs)
       = Inr (get_avg_fps (ffprobe_value \<E> src [''stream=avg_frame_rate''] ''v:0''))
   \<and> fst (has_audio_io \<E> src evs)
       = Inr (has_audio (ffprobe_value \<E> src [''stream=index''] ''a''))
   \<and> (proc \<E> (ffprobe_cmd src entries sel) = Inl e4
        \<longrightarrow> ffprobe_value \<E> src entries sel = Inl e4)
   \<and> (proc \<E> (ffprobe_cmd src entries sel) = Inr (rc, txt) \<and> rc \<noteq> 0
        \<longrightarrow> ffprobe_value \<E> src entries sel = Inl CalledProcessError)"
proof -
  have pure: "get_src_height (Inl e) = 1080 \<and> get_avg_fps (Inl e) = 25 \<and> \<not> has_audio (Inl e)
   \<and> (get_src_height_try p1 = Inl e1 \<longrightarrow> get_src_height p1 = 1080)
   \<and> (get_avg_fps_try p2 = Inl e2 \<longrightarrow> get_avg_fps p2 = 25)
   \<and> (has_audio_try p3 = Inl e3 \<longrightarrow> \<not> has_audio p3)"
    by (simp add: get_src_height_def get_src_height_try_def get_avg_fps_def
        get_avg_fps_try_def has_audio_def has_audio_try_def)
  from pure probing_never_raises [of \<E> src evs]
    ffprobe_value_failure [of \<E> src entries sel]
  show ?thesis by blast
qed

theorem probe_failure_defaults_witness:
  "get_src_height_try (Inr [''tall'']) = Inl ValueError
   \<and> get_src_height (Inr [''tall'']) = 1080
   \<and> get_avg_fps_try (Inr [''1/2/3'']) = Inl ValueError
   \<and> get_avg_fps (Inr [''1/2/3'']) = 25
   \<and> has_audio_try (Inl CalledProcessError) = Inl CalledProcessError
   \<and> \<not> has_audio (Inl CalledProcessError)
   \<and> proc (example_env\<lparr>proc := \<lambda>cmd. Inl OSError\<rparr>)
        (ffprobe_cmd ''videos/a.mp4'' [''stream=height''] ''v:0'') = Inl OSError
   \<and> ffprobe_value (example_env\<lparr>proc := \<lambda>cmd. Inl OSError\<rparr>)
        ''videos/a.mp4'' [''stream=height''] ''v:0'' = Inl OSError
   \<and> proc (example_env\<lparr>proc := \<lambda>cmd. Inr (1, [])\<rparr>)
        (ffprobe_cmd ''videos/a.mp4'' [''stream=height''] ''v:0'') = Inr (1, [])
   \<and> ffprobe_value (example_env\<lparr>proc := \<lambda>cmd. Inr (1, [])\<rparr>)
        ''videos/a.mp4'' [''stream=height''] ''v:0'' = Inl CalledProcessError"
proof -
  let ?down = "example_env\<lparr>proc := \<lambda>cmd. Inl OSError\<rparr>"
  let ?bad = "example_env\<lparr>proc := \<lambda>cmd. Inr (1, [])\<rparr>"
  have a: "get_src_height_try (Inr [''tall'']) = Inl ValueError" by code_simp
  have b: "get_avg_fps_try (Inr [''1/2/3'']) = Inl ValueError" by code_simp
  have c: "has_audio_try (Inl CalledProcessError) = Inl CalledProcessError" by code_simp
  have d: "proc ?down (ffprobe_cmd ''videos/a.mp4'' [''stream=height''] ''v:0'') = Inl OSError"
    by simp
  have f: "proc ?bad (ffprobe_cmd ''videos/a.mp4'' [''stream=height''] ''v:0'') = Inr (1, [])"
    by simp
  have nz: "(1::int) \<noteq> 0"
    by simp
  note t1 = probe_failure_defaults [of OSError "Inr [''tall'']" ValueError "Inr [''1/2/3'']"
      ValueError "Inl CalledProcessError" CalledProcessError ?down "''videos/a.mp4''" "[]"
      "[''stream=height'']" "''v:0''" OSError 1 "[]"]
  note t2 = probe_failure_defaults [of OSError "Inr [''tall'']" ValueError "Inr [''1/2/3'']"
      ValueError "Inl CalledProcessError" CalledProcessError ?bad "''videos/a.mp4''" "[]"
      "[''stream=height'']" "''v:0''" OSError 1 "[]"]
  from a t1 have 1: "get_src_height (Inr [''tall'']) = 1080" by blast
  from b t1 have 2: "get_avg_fps (Inr [''1/2/3'']) = 25" by blast
  from c t1 have 3: "\<not> has_audio (Inl CalledProcessError)" by blast
  from d t1 have 4: "ffprobe_value ?down ''videos/a.mp4'' [''stream=height''] ''v:0'' = Inl OSError"
    by blast
  from f nz t2 have 5: "ffprobe_value ?bad ''videos/a.mp4'' [''stream=height''] ''v:0''
      = Inl CalledProcessError"
    by blast
  from a 1 b 2 c 3 d 4 f 5 show ?thesis by (intro conjI)
qed

text \<open>
  Claim C10. For a frame-rate string \<open>N/0\<close>, with \<open>N\<close> a number and the denominator any
  literal of value zero, the parser divides by 1.0 instead: the body of the \<^verbatim>\<open>try\<close> block
  returns \<open>N\<close> without raising, so the handler with the default 25.0 is not entered, and
  the frame rate is \<open>N\<close>. No output of the probe makes the body raise ZeroDivisionError.
\<close>

theorem zero_denominator_gives_numerator:
  assumes "py_float num = Inr n" and "py_float den = Inr 0"
  shows "get_avg_fps_try (Inr ((num @ ''/'' @ den) # rest)) = Inr n
    \<and> get_avg_fps (Inr ((num @ ''/'' @ den) # rest)) = n
    \<and> get_avg_fps_try (Inr vals) \<noteq> Inl ZeroDivisionError"
proof -
  have sp: "split_on (CHR ''/'') (num @ CHR ''/'' # den) = [num, den]"
    using py_float_no_slash [OF assms(1)] py_float_no_slash [OF assms(2)]
    by (simp add: split_on_append split_on_single)
  have body: "get_avg_fps_try (Inr ((num @ ''/'' @ den) # rest)) = Inr n"
    using assms by (simp add: get_avg_fps_try_def sp py_truediv_def)
  then have "get_avg_fps (Inr ((num @ ''/'' @ den) # rest)) = n"
    by (simp add: get_avg_fps_def)
  with body get_avg_fps_try_no_zero_division [of vals] show ?thesis
    by simp
qed

theorem zero_denominator_gives_numerator_witness:
  "py_float ''30'' = Inr 30 \<and> py_float ''0'' = Inr 0
   \<and> get_avg_fps_try (Inr [''30/0'']) = Inr 30 \<and> get_avg_fps (Inr [''30/0'']) = 30"
proof -
  have a: "py_float ''30'' = Inr 30" by code_simp
  have b: "py_float ''0'' = Inr 0" by code_simp
  from zero_denominator_gives_numerator [OF a b, of "[]" "[]"] a b show ?thesis
    by simp
qed

section \<open>Properties of the filter-graph builder\<close>








section \<open>Properties of the parameter tables\<close>













section \<open>Properties of computations\<close>

text \<open>How a computation runs on a log: the laws of \<open>bind\<close>.\<close>

lemma bind_emit: "bind (emit ev) f evs = f () (evs @ [ev])"
  by (simp add: bind_def emit_def)

lemma bind_ret: "bind (ret x) f = f x"
  by (simp add: bind_def ret_def)

lemma ret_apply: "ret x evs = (Inr x, evs)"
  by (simp add: ret_def)

lemma raise_apply: "raise e evs = (Inl e, evs)"
  by (simp add: raise_def)

lemma bind_raise: "bind (raise e) f = raise e"
  by (simp add: bind_def raise_def fun_eq_iff)

lemma bind_assoc: "bind (bind m f) g = bind m (\<lambda>x. bind (f x) g)"
  by (auto simp: bind_def fun_eq_iff split: prod.splits sum.splits)









section \<open>Properties of the audio extractor\<close>

lemma extract_audio_run:
  "extract_audio \<E> src out_m4a bitrate evs =
     (if \<not> has_audio (ffprobe_value \<E> src [''stream=index''] ''a'')
      then (Inr None, evs @ [Exec (ffprobe_cmd src [''stream=index''] ''a'')])
      else (case mkdir \<E> (parent out_m4a) of
              Some e \<Rightarrow>
                (Inl (Exception e),
                 evs @ [Exec (ffprobe_cmd src [''stream=index''] ''a''),
                        EnsureDir (parent out_m4a)])
            | None \<Rightarrow>
                (case proc \<E> (audio_cmd src out_m4a bitrate) of
                   Inl e \<Rightarrow> Inl (Exception e)
                 | Inr (rc, txt) \<Rightarrow>
                     if rc \<noteq> 0 then Inl (Exception CalledProcessError)
                     else Inr (Some out_m4a),
                 evs @ [Exec (ffprobe_cmd src [''stream=index''] ''a''),
                        EnsureDir (parent out_m4a),
                        Exec (audio_cmd src out_m4a bitrate)])))"
  by (simp add: extract_audio_def has_audio_io_def ensure_dir_def run_def
      bind_assoc bind_emit bind_ret ret_apply raise_apply bind_raise
      split: option.splits sum.splits prod.splits)

text \<open>
  Claim C6. The extractor returns no track exactly when the prober reports no audio
  stream (\<^const>\<open>has_audio\<close> is false: the list of stream indices is empty, or the query
  raised), and then it logs nothing but the query. When the prober reports audio and the
  directory can be made and ffmpeg exits with code 0, it returns the path after running
  one command, the AAC encode with two channels at the given bitrate. In every case the
  log grows by an initial part of: the query, the directory, that one command.
\<close>

theorem extract_audio_outcome:
  "(fst (extract_audio \<E> src out_m4a bitrate evs) = Inr None
      \<longleftrightarrow> \<not> has_audio (ffprobe_value \<E> src [''stream=index''] ''a''))
   \<and> (\<not> has_audio (ffprobe_value \<E> src [''stream=index''] ''a'')
        \<longrightarrow> snd (extract_audio \<E> src out_m4a bitrate evs)
            = evs @ [Exec (ffprobe_cmd src [''stream=index''] ''a'')])
   \<and> (has_audio (ffprobe_value \<E> src [''stream=index''] ''a'')
        \<and> mkdir \<E> (parent out_m4a) = None
        \<and> proc \<E> (audio_cmd src out_m4a bitrate) = Inr (0, txt)
        \<longrightarrow> extract_audio \<E> src out_m4a bitrate evs
            = (Inr (Some out_m4a),
               evs @ [Exec (ffprobe_cmd src [''stream=index''] ''a''),
                      EnsureDir (parent out_m4a),
                      Exec (audio_cmd src out_m4a bitrate)]))
   \<and> (\<exists>k. 1 \<le> k \<and> k \<le> 3 \<and> snd (extract_audio \<E> src out_m4a bitrate evs)
            = evs @ take k [Exec (ffprobe_cmd src [''stream=index''] ''a''),
                            EnsureDir (parent out_m4a),
                            Exec (audio_cmd src out_m4a bitrate)])
   \<and> audio_cmd src out_m4a bitrate
       = [''ffmpeg'', ''-y'', ''-i'', src, ''-vn'', ''-c:a'', ''aac'',
          ''-b:a'', bitrate, ''-ac'', ''2'', out_m4a]
   \<and> has_audio (Inr vals) = (vals \<noteq> [])
   \<and> \<not> has_audio (Inl e)"
proof -
  let ?probe = "Exec (ffprobe_cmd src [''stream=index''] ''a'')"
  let ?three = "[?probe, EnsureDir (parent out_m4a), Exec (audio_cmd src out_m4a bitrate)]"
  have none_iff: "fst (extract_audio \<E> src out_m4a bitrate evs) = Inr None
      \<longleftrightarrow> \<not> has_audio (ffprobe_value \<E> src [''stream=index''] ''a'')"
    by (auto simp: extract_audio_run split: option.splits sum.splits prod.splits)
  have silent: "\<not> has_audio (ffprobe_value \<E> src [''stream=index''] ''a'')
      \<longrightarrow> snd (extract_audio \<E> src out_m4a bitrate evs) = evs @ [?probe]"
    by (simp add: extract_audio_run)
  have track: "has_audio (ffprobe_value \<E> src [''stream=index''] ''a'')
        \<and> mkdir \<E> (parent out_m4a) = None
        \<and> proc \<E> (audio_cmd src out_m4a bitrate) = Inr (0, txt)
      \<longrightarrow> extract_audio \<E> src out_m4a bitrate evs = (Inr (Some out_m4a), evs @ ?three)"
    by (simp add: extract_audio_run)
  have "snd (extract_audio \<E> src out_m4a bitrate evs) = evs @ take 1 ?three
      \<or> snd (extract_audio \<E> src out_m4a bitrate evs) = evs @ take 2 ?three
      \<or> snd (extract_audio \<E> src out_m4a bitrate evs) = evs @ take 3 ?three"
    by (simp add: extract_audio_run split: option.splits)
  then have upto: "\<exists>k. 1 \<le> k \<and> k \<le> 3
      \<and> snd (extract_audio \<E> src out_m4a bitrate evs) = evs @ take k ?three"
  proof (elim disjE)
    assume "snd (extract_audio \<E> src out_m4a bitrate evs) = evs @ take 1 ?three"
    then show ?thesis by (intro exI [of _ 1]) simp
  next
    assume "snd (extract_audio \<E> src out_m4a bitrate evs) = evs @ take 2 ?three"
    then show ?thesis by (intro exI [of _ 2]) simp
  next
    assume "snd (extract_audio \<E> src out_m4a bitrate evs) = evs @ take 3 ?three"
    then show ?thesis by (intro exI [of _ 3]) simp
  qed
  have cmd: "audio_cmd src out_m4a bitrate
       = [''ffmpeg'', ''-y'', ''-i'', src, ''-vn'', ''-c:a'', ''aac'',
          ''-b:a'', bitrate, ''-ac'', ''2'', out_m4a]"
    by (simp add: audio_cmd_def)
  have probe: "has_audio (Inr vals) = (vals \<noteq> [])" "\<not> has_audio (Inl e)"
    by (simp_all add: has_audio_def has_audio_try_def)
  from none_iff silent track upto cmd probe show ?thesis
    by (intro conjI)
qed

theorem extract_audio_outcome_witness:
  "has_audio (ffprobe_value example_env ''videos/a.mp4'' [''stream=index''] ''a'')
   \<and> extract_audio example_env ''videos/a.mp4'' ''temp/a/audio/audio.m4a'' ''192k'' []
       = (Inr (Some ''temp/a/audio/audio.m4a''),
          [] @ [Exec (ffprobe_cmd ''videos/a.mp4'' [''stream=index''] ''a''),
                EnsureDir (parent ''temp/a/audio/audio.m4a''),
                Exec (audio_cmd ''videos/a.mp4'' ''temp/a/audio/audio.m4a'' ''192k'')])
   \<and> \<not> has_audio (ffprobe_value example_env ''videos/mute.mp4'' [''stream=index''] ''a'')
   \<and> fst (extract_audio example_env ''videos/mute.mp4'' ''temp/mute/audio/audio.m4a'' ''192k'' [])
       = Inr None
   \<and> snd (extract_audio example_env ''videos/mute.mp4'' ''temp/mute/audio/audio.m4a'' ''192k'' [])
       = [] @ [Exec (ffprobe_cmd ''videos/mute.mp4'' [''stream=index''] ''a'')]"
proof -
  have a: "has_audio (ffprobe_value example_env ''videos/a.mp4'' [''stream=index''] ''a'')"
    by code_simp
  have d: "mkdir example_env (parent ''temp/a/audio/audio.m4a'') = None"
    by (simp add: example_env_def)
  have r: "proc example_env (audio_cmd ''videos/a.mp4'' ''temp/a/audio/audio.m4a'' ''192k'')
      = Inr (0, [])"
    by code_simp
  have m: "\<not> has_audio (ffprobe_value example_env ''videos/mute.mp4'' [''stream=index''] ''a'')"
    by code_simp
  note t1 = extract_audio_outcome [of example_env "''videos/a.mp4''" "''temp/a/audio/audio.m4a''"
      "''192k''" "[]" "[]" "[]" OSError]
  note t2 = extract_audio_outcome [of example_env "''videos/mute.mp4''"
      "''temp/mute/audio/audio.m4a''" "''192k''" "[]" "[]" "[]" OSError]
  from t1 [THEN conjunct2, THEN conjunct2, THEN conjunct1, THEN mp,
      OF conjI [OF a conjI [OF d r]]]
  have 1: "extract_audio example_env ''videos/a.mp4'' ''temp/a/audio/audio.m4a'' ''192k'' []
       = (Inr (Some ''temp/a/audio/audio.m4a''),
          [] @ [Exec (ffprobe_cmd ''videos/a.mp4'' [''stream=index''] ''a''),
                EnsureDir (parent ''temp/a/audio/audio.m4a''),
                Exec (audio_cmd ''videos/a.mp4'' ''temp/a/audio/audio.m4a'' ''192k'')])" .
  from t2 [THEN conjunct1, THEN iffD2, OF m]
  have 2: "fst (extract_audio example_env ''videos/mute.mp4'' ''temp/mute/audio/audio.m4a''
        ''192k'' []) = Inr None" .
  from t2 [THEN conjunct2, THEN conjunct1, THEN mp, OF m]
  have 3: "snd (extract_audio example_env ''videos/mute.mp4'' ''temp/mute/audio/audio.m4a''
        ''192k'' []) = [] @ [Exec (ffprobe_cmd ''videos/mute.mp4'' [''stream=index''] ''a'')]" .
  from a 1 m 2 3 show ?thesis
    by (intro conjI)
qed

section \<open>Properties of the main program\<close>

















end
